theory Spec2Isabelle
  imports Main
begin

section \<open>Data model\<close>

text \<open>
  The view-model of the list detail screen (component \<open>TodoListDetail\<close>). Strings are
  lists of code units below 256. An item is the interface \<open>TodoListItem\<close> of
  \<open>types/index.ts\<close>; the field \<open>id\<close> is written \<open>id'\<close>. The provisional item built
  by \<open>handleAddItem\<close> carries one more property, \<open>listId: parseInt(listId)\<close>, kept here
  as \<open>listIdNum\<close> (\<open>None\<close> on an item that has no such property).
\<close>

datatype number = NaN | Number int

record TodoListItem =
  id' :: string
  todoListId :: string
  description :: string
  completed :: bool
  listIdNum :: "number option"

datatype mode = vanilla | websocket

record TodoListDetailProps =
  listId :: string
  listName :: string
  mode :: mode

text \<open>The handle returned by \<open>setInterval\<close>.\<close>

datatype timeout = Timeout nat

text \<open>
  The state hooks of the component and the ref \<open>pollingIntervalRef\<close>. The progress
  \<open>{completed, total}\<close> is the pair \<open>(completed, total)\<close>. The ref holds the handle of
  the one interval the component has set and not cleared.
\<close>

record view_state =
  items :: "TodoListItem list"
  newItemDesc :: string
  loading :: bool
  error :: "string option"
  isMocking :: bool
  isCompletingAll :: bool
  editingItemId :: "string option"
  editingItemDesc :: string
  completionProgress :: "(int \<times> int) option"
  pollingIntervalRef :: "timeout option"

definition initialState :: view_state where
  "initialState =
     \<lparr>items = [], newItemDesc = [], loading = True, error = None, isMocking = False,
      isCompletingAll = False, editingItemId = None, editingItemDesc = [],
      completionProgress = None, pollingIntervalRef = None\<rparr>"

text \<open>The calls of \<open>services/api\<close> a handler can issue, with their arguments.\<close>

datatype request =
    getTodoListItems string
  | createTodoListItem string string
  | updateTodoListItem_completed string string bool
  | updateTodoListItem_description string string string
  | deleteTodoListItem string string
  | createMockData string
  | completeAllItems string
  | completeAllItemsSignalR string

text \<open>How an awaited call settles.\<close>

datatype 'a outcome = Resolved 'a | Rejected

section \<open>Strings of the runtime\<close>

text \<open>
  \<open>trim\<close> removes white space and line terminators from both ends; among the code
  units below 256 these are 9 to 13, 32 and 160. \<open>toString\<close> is the decimal form of an
  integer number.
\<close>

definition isWhiteSpace :: "char \<Rightarrow> bool" where
  "isWhiteSpace c = (of_char c \<in> {9, 10, 11, 12, 13, 32, 160 :: nat})"

definition trim :: "string \<Rightarrow> string" where
  "trim s = rev (dropWhile isWhiteSpace (rev (dropWhile isWhiteSpace s)))"

fun digits :: "nat \<Rightarrow> string" where
  "digits n =
     (if n < 10 then [''0123456789'' ! n]
      else digits (n div 10) @ [''0123456789'' ! (n mod 10)])"

declare digits.simps [simp del]

definition toString :: "int \<Rightarrow> string" where
  "toString i = (if i < 0 then CHR ''-'' # digits (nat (- i)) else digits (nat i))"

text \<open>The template string \<open>temp-${Date.now()}\<close>, the clock being \<open>now\<close>.\<close>

definition tempIdOf :: "nat \<Rightarrow> string" where
  "tempIdOf now = ''temp-'' @ digits now"

section \<open>Polling and fetching\<close>

text \<open>\<open>stopPolling\<close>: if the ref holds a handle, \<open>clearInterval\<close> it and empty the ref.\<close>

definition stopPolling :: "view_state \<Rightarrow> view_state" where
  "stopPolling s =
     (case pollingIntervalRef s of
        Some t \<Rightarrow> s\<lparr>pollingIntervalRef := None\<rparr>
      | None \<Rightarrow> s)"

text \<open>
  \<open>fetchItems(calledDuringPolling)\<close> up to its \<open>await\<close>. The callback is memoised on
  \<open>isCompletingAll\<close>: \<open>isCompletingAllDep\<close> is the value it closed over.
\<close>

definition fetchItems_begin ::
  "TodoListDetailProps \<Rightarrow> bool \<Rightarrow> bool \<Rightarrow> view_state \<Rightarrow> view_state \<times> request" where
  "fetchItems_begin p isCompletingAllDep calledDuringPolling s =
     (let s1 = (if \<not> calledDuringPolling \<and> \<not> isCompletingAllDep
                then s\<lparr>loading := True\<rparr> else s);
          s2 = (if \<not> calledDuringPolling then s1\<lparr>error := None\<rparr> else s1);
          s3 = (if \<not> calledDuringPolling \<and> mode p = vanilla then stopPolling s2 else s2)
      in (s3, getTodoListItems (listId p)))"

definition fetchItems_finally :: "bool \<Rightarrow> view_state \<Rightarrow> view_state" where
  "fetchItems_finally calledDuringPolling s =
     (if \<not> calledDuringPolling then s\<lparr>loading := False\<rparr> else s)"

text \<open>The \<open>try\<close> block after the \<open>await\<close> resolved with \<open>data\<close>, then \<open>finally\<close>.\<close>

definition fetchItems_then ::
  "TodoListDetailProps \<Rightarrow> bool \<Rightarrow> TodoListItem list \<Rightarrow> view_state \<Rightarrow> view_state" where
  "fetchItems_then p calledDuringPolling data s =
     (let s1 = s\<lparr>items := data\<rparr>;
          s2 = (if mode p = vanilla \<and> calledDuringPolling \<and> length data > 0
                   \<and> list_all completed data
                then (stopPolling s1)\<lparr>isCompletingAll := False\<rparr> else s1);
          s3 = s2\<lparr>error := None\<rparr>
      in fetchItems_finally calledDuringPolling s3)"

text \<open>
  The \<open>catch\<close> block, then \<open>finally\<close>. The second component tells whether the error is
  thrown again to the caller.
\<close>

definition fetchItems_catch ::
  "TodoListDetailProps \<Rightarrow> bool \<Rightarrow> view_state \<Rightarrow> view_state \<times> bool" where
  "fetchItems_catch p calledDuringPolling s =
     (let errorMsg = ''Failed to fetch list items''
                       @ (if calledDuringPolling then '' during polling'' else [])
                       @ ''.'';
          s1 = s\<lparr>error := Some errorMsg\<rparr>;
          s2 = (if calledDuringPolling \<or> mode p = vanilla
                then (stopPolling s1)\<lparr>isCompletingAll := False, completionProgress := None\<rparr>
                else s1)
      in (fetchItems_finally calledDuringPolling s2, \<not> calledDuringPolling))"

text \<open>
  The effect on \<open>[mode, listId]\<close>, as far as the state hooks go (the connection it
  opens in websocket mode is not part of \<open>view_state\<close>).
\<close>

definition modeEffect :: "TodoListDetailProps \<Rightarrow> view_state \<Rightarrow> view_state" where
  "modeEffect p s =
     (if mode p \<noteq> websocket
      then (let s1 = s\<lparr>completionProgress := None\<rparr>
            in if isCompletingAll s then s1\<lparr>isCompletingAll := False\<rparr> else s1)
      else s)"

section \<open>The push event\<close>

text \<open>
  \<open>updatedListId\<close> is a number (the hub sends whole numbers), a string, or
  \<open>null\<close>/\<open>undefined\<close>; \<open>hubIdStr\<close> is \<open>updatedListId?.toString().trim()\<close>, \<open>None\<close> for
  \<open>undefined\<close>.
\<close>

datatype hubId = IdNumber int | IdString string | IdNullish

fun hubIdStr :: "hubId \<Rightarrow> string option" where
  "hubIdStr (IdNumber n) = Some (trim (toString n))"
| "hubIdStr (IdString x) = Some (trim x)"
| "hubIdStr IdNullish = None"

text \<open>\<open>findIndex\<close>: the first index whose element satisfies the predicate, \<open>None\<close> for -1.\<close>

fun findIndex :: "('a \<Rightarrow> bool) \<Rightarrow> 'a list \<Rightarrow> nat option" where
  "findIndex P [] = None"
| "findIndex P (x # xs) =
     (if P x then Some 0 else map_option Suc (findIndex P xs))"

text \<open>
  The updater passed to \<open>setItems\<close> by the handler of \<open>ReceiveTodoCompletionUpdate\<close>.
  Both sides of \<open>item.id == justCompletedItemId\<close> are strings, so \<open>==\<close> is equality.
\<close>

definition markCompleted :: "string \<Rightarrow> TodoListItem list \<Rightarrow> TodoListItem list" where
  "markCompleted justCompletedItemId currentItems =
     (case findIndex (\<lambda>item. id' item = justCompletedItemId) currentItems of
        None \<Rightarrow> currentItems
      | Some index \<Rightarrow>
          if completed (currentItems ! index) then currentItems
          else currentItems[index := (currentItems ! index)\<lparr>completed := True\<rparr>])"

definition receiveTodoCompletionUpdate ::
  "TodoListDetailProps \<Rightarrow> hubId \<Rightarrow> string option \<Rightarrow> int \<Rightarrow> int \<Rightarrow> view_state \<Rightarrow> view_state" where
  "receiveTodoCompletionUpdate p updatedListId justCompletedItemId completedCount totalCount s =
     (let backendListIdStr = hubIdStr updatedListId;
          currentListIdStr = trim (listId p)
      in if backendListIdStr \<noteq> None \<and> backendListIdStr \<noteq> Some []
            \<and> currentListIdStr \<noteq> [] \<and> backendListIdStr = Some currentListIdStr
         then
           (let s1 = s\<lparr>completionProgress := Some (completedCount, totalCount)\<rparr>;
                s2 = (case justCompletedItemId of
                        None \<Rightarrow> s1
                      | Some itemId \<Rightarrow>
                          if itemId = [] then s1
                          else s1\<lparr>items := markCompleted itemId (items s1)\<rparr>)
            in if completedCount = totalCount \<and> totalCount > 0
               then s2\<lparr>isCompletingAll := False, completionProgress := None\<rparr>
               else s2)
         else s)"

section \<open>Optimistic mutations\<close>

text \<open>
  Each handler is cut at its \<open>await\<close>: \<open>_begin\<close> is the code up to the call (it returns
  the request, or \<open>None\<close> when the handler returned before issuing one), \<open>_then\<close> the
  rest of the \<open>try\<close> block, \<open>_catch\<close> the \<open>catch\<close> block. A handler is created at each
  render, so \<open>_begin\<close> reads the state it is run in; the later parts take the locals the
  closure holds as arguments and read the state only through functional updates.
  \<open>handleUpdateItemDesc_begin\<close> returns, with the request, the local \<open>originalDesc\<close>.
  (The commented copy of the component asks the user to confirm a deletion before
  anything else and returns on a refusal; the handlers are otherwise the same.)
\<close>

definition handleAddItem_begin ::
  "TodoListDetailProps \<Rightarrow> nat \<Rightarrow> number \<Rightarrow> view_state \<Rightarrow> view_state \<times> request option" where
  "handleAddItem_begin p now parsedListId s =
     (if trim (newItemDesc s) = [] \<or> isCompletingAll s \<or> isMocking s then (s, None)
      else
        (let tempId = tempIdOf now;
             newItemOptimistic =
               \<lparr>id' = tempId, todoListId = listId p, description = newItemDesc s,
                completed = False, listIdNum = Some parsedListId\<rparr>;
             s1 = s\<lparr>error := None\<rparr>;
             s2 = s1\<lparr>items := items s1 @ [newItemOptimistic]\<rparr>;
             originalDesc = newItemDesc s;
             s3 = s2\<lparr>newItemDesc := []\<rparr>
         in (s3, Some (createTodoListItem (listId p) originalDesc))))"

definition handleAddItem_then :: "string \<Rightarrow> TodoListItem \<Rightarrow> view_state \<Rightarrow> view_state" where
  "handleAddItem_then tempId newItem s =
     s\<lparr>items := map (\<lambda>item. if id' item = tempId then newItem else item) (items s)\<rparr>"

definition handleAddItem_catch :: "string \<Rightarrow> string \<Rightarrow> view_state \<Rightarrow> view_state" where
  "handleAddItem_catch tempId originalDesc s =
     (let s1 = s\<lparr>error := Some ''Failed to add item.''\<rparr>;
          s2 = s1\<lparr>items := filter (\<lambda>item. id' item \<noteq> tempId) (items s1)\<rparr>
      in s2\<lparr>newItemDesc := originalDesc\<rparr>)"

definition handleToggleComplete_begin ::
  "TodoListDetailProps \<Rightarrow> TodoListItem \<Rightarrow> view_state \<Rightarrow> view_state \<times> request option" where
  "handleToggleComplete_begin p item s =
     (if isCompletingAll s \<or> isMocking s \<or> editingItemId s = Some (id' item) then (s, None)
      else
        (let s1 = s\<lparr>error := None\<rparr>;
             s2 = s1\<lparr>items :=
                    map (\<lambda>i. if id' i = id' item then i\<lparr>completed := \<not> completed i\<rparr> else i)
                      (items s1)\<rparr>
         in (s2, Some (updateTodoListItem_completed (listId p) (id' item) (\<not> completed item)))))"

definition handleToggleComplete_catch :: "TodoListItem \<Rightarrow> view_state \<Rightarrow> view_state" where
  "handleToggleComplete_catch item s =
     (let originalCompleted = completed item;
          s1 = s\<lparr>error := Some ''Failed to update item status.''\<rparr>
      in s1\<lparr>items :=
             map (\<lambda>i. if id' i = id' item then i\<lparr>completed := originalCompleted\<rparr> else i)
               (items s1)\<rparr>)"

definition handleDeleteItem_begin ::
  "TodoListDetailProps \<Rightarrow> string \<Rightarrow> view_state \<Rightarrow> view_state \<times> request option" where
  "handleDeleteItem_begin p itemId s =
     (if isCompletingAll s \<or> isMocking s \<or> editingItemId s = Some itemId then (s, None)
      else
        (let s1 = s\<lparr>error := None\<rparr>;
             s2 = s1\<lparr>items := filter (\<lambda>item. id' item \<noteq> itemId) (items s)\<rparr>
         in (s2, Some (deleteTodoListItem (listId p) itemId))))"

definition handleDeleteItem_catch :: "TodoListItem list \<Rightarrow> view_state \<Rightarrow> view_state" where
  "handleDeleteItem_catch originalItems s =
     (let s1 = s\<lparr>error := Some ''Failed to delete item.''\<rparr>
      in s1\<lparr>items := originalItems\<rparr>)"

definition startEditing :: "TodoListItem \<Rightarrow> view_state \<Rightarrow> view_state" where
  "startEditing item s =
     (if isCompletingAll s \<or> isMocking s \<or> completed item then s
      else s\<lparr>editingItemId := Some (id' item), editingItemDesc := description item\<rparr>)"

definition cancelEditing :: "view_state \<Rightarrow> view_state" where
  "cancelEditing s = s\<lparr>editingItemId := None, editingItemDesc := []\<rparr>"

definition handleUpdateItemDesc_begin ::
  "TodoListDetailProps \<Rightarrow> string \<Rightarrow> view_state \<Rightarrow> view_state \<times> (request \<times> string) option" where
  "handleUpdateItemDesc_begin p itemId s =
     (case find (\<lambda>i. id' i = itemId) (items s) of
        None \<Rightarrow> (cancelEditing s, None)
      | Some currentItem \<Rightarrow>
          if isCompletingAll s \<or> isMocking s \<or> trim (editingItemDesc s) = []
             \<or> editingItemDesc s = description currentItem
          then (cancelEditing s, None)
          else
            (let s1 = s\<lparr>error := None\<rparr>;
                 originalDesc = description currentItem;
                 s2 = s1\<lparr>items :=
                        map (\<lambda>i. if id' i = itemId then i\<lparr>description := editingItemDesc s\<rparr>
                                  else i) (items s)\<rparr>;
                 s3 = cancelEditing s2
             in (s3, Some (updateTodoListItem_description (listId p) itemId (editingItemDesc s),
                           originalDesc))))"

text \<open>
  The \<open>catch\<close> block reads \<open>items\<close> and \<open>originalDesc\<close> of the closure: the collection
  of the render the handler was run in, and the description found there.
\<close>

definition handleUpdateItemDesc_catch ::
  "TodoListItem list \<Rightarrow> string \<Rightarrow> string \<Rightarrow> view_state \<Rightarrow> view_state" where
  "handleUpdateItemDesc_catch closureItems itemId originalDesc s =
     (let s1 = s\<lparr>error := Some ''Failed to update item description.''\<rparr>
      in s1\<lparr>items :=
             map (\<lambda>i. if id' i = itemId then i\<lparr>description := originalDesc\<rparr> else i)
               closureItems\<rparr>)"

section \<open>Mock data and the bulk operation\<close>

definition handleMockData_begin ::
  "TodoListDetailProps \<Rightarrow> view_state \<Rightarrow> view_state \<times> request option" where
  "handleMockData_begin p s =
     (if isMocking s \<or> isCompletingAll s then (s, None)
      else
        (let s1 = s\<lparr>isMocking := True\<rparr>;
             s2 = s1\<lparr>error := None\<rparr>;
             s3 = (if mode p = vanilla then stopPolling s2 else s2)
         in (s3, Some (createMockData (listId p)))))"

definition handleMockData_catch :: "view_state \<Rightarrow> view_state" where
  "handleMockData_catch s = s\<lparr>error := Some ''Failed to generate mock data.''\<rparr>"

definition handleMockData_finally :: "view_state \<Rightarrow> view_state" where
  "handleMockData_finally s = s\<lparr>isMocking := False\<rparr>"

definition handleCompleteAll_begin ::
  "TodoListDetailProps \<Rightarrow> view_state \<Rightarrow> view_state \<times> request option" where
  "handleCompleteAll_begin p s =
     (if isCompletingAll s \<or> isMocking s then (s, None)
      else
        (let itemsToComplete = filter (\<lambda>item. \<not> completed item) (items s)
         in if length itemsToComplete = 0 then (s, None)
            else
              (let s1 = s\<lparr>error := None\<rparr>;
                   s2 = s1\<lparr>isCompletingAll := True\<rparr>
               in if mode p = websocket
                  then
                    (let totalItems = length (items s);
                         currentlyCompleted = totalItems - length itemsToComplete;
                         s3 = s2\<lparr>completionProgress :=
                                   Some (int currentlyCompleted, int totalItems)\<rparr>
                     in (s3, Some (completeAllItemsSignalR (listId p))))
                  else (stopPolling s2, Some (completeAllItems (listId p))))))"

text \<open>
  After the trigger resolved: in vanilla mode \<open>setInterval\<close> is called, and returns
  \<open>t\<close>, unless the ref already holds a handle. In websocket mode nothing follows.
\<close>

definition handleCompleteAll_then ::
  "TodoListDetailProps \<Rightarrow> timeout \<Rightarrow> view_state \<Rightarrow> view_state" where
  "handleCompleteAll_then p t s =
     (if mode p = websocket then s
      else if pollingIntervalRef s = None then s\<lparr>pollingIntervalRef := Some t\<rparr> else s)"

definition handleCompleteAll_catch :: "TodoListDetailProps \<Rightarrow> view_state \<Rightarrow> view_state" where
  "handleCompleteAll_catch p s =
     (if mode p = websocket
      then s\<lparr>error := Some ''Failed to initiate complete all items (websocket mode).'',
              isCompletingAll := False, completionProgress := None\<rparr>
      else s\<lparr>error := Some ''Failed to initiate complete all items (vanilla mode).'',
              isCompletingAll := False\<rparr>)"

section \<open>Events\<close>

text \<open>
  The component runs on one thread: what happens to it is a sequence of events, each
  run to its end before the next. An event is an effect, a user action (the part of
  the handler before its \<open>await\<close>), a timer tick, a message of the hub, or the
  settling of an awaited call (the part of the handler after the \<open>await\<close>, with the
  locals of its closure). \<open>fire\<close> gives the state after the event and the requests
  the event issues.
\<close>

text \<open>
  The callbacks of the hub connection set the error status and nothing else of the
  state: the connection started, failed to start, failed to join the group of the
  list, closed, is reconnecting, has reconnected.
\<close>

datatype connectionEvent =
    Started | StartFailed | JoinFailed | Closed | Reconnecting | Reconnected

fun connectionStatus :: "connectionEvent \<Rightarrow> string option" where
  "connectionStatus Started = None"
| "connectionStatus StartFailed = Some ''Failed to connect for real-time updates.''"
| "connectionStatus JoinFailed =
     Some ''Failed to subscribe to real-time updates for this list.''"
| "connectionStatus Closed = Some ''Real-time connection lost. Attempting to reconnect...''"
| "connectionStatus Reconnecting =
     Some ''Real-time connection interrupted. Attempting to reconnect...''"
| "connectionStatus Reconnected = None"

datatype event =
    FetchItemsEffect
  | ModeEffect
  | GetItemsResolved bool "TodoListItem list"
  | GetItemsRejected bool
  | PollTick
  | ReceiveTodoCompletionUpdate hubId "string option" int int
  | Connection connectionEvent
  | ChangeNewItemDesc string
  | ChangeEditingItemDesc string
  | AddItem nat number
  | AddItemResolved string TodoListItem
  | AddItemRejected string string
  | ToggleComplete TodoListItem
  | ToggleCompleteRejected TodoListItem
  | DeleteItem string
  | DeleteItemRejected "TodoListItem list"
  | StartEditing TodoListItem
  | CancelEditing
  | UpdateItemDesc string
  | UpdateItemDescRejected "TodoListItem list" string string
  | MockData
  | MockDataCreated
  | MockDataFailed
  | MockDataDone
  | CompleteAll
  | CompleteAllResolved timeout
  | CompleteAllRejected

text \<open>
  The effect on \<open>[listId, fetchItems, mode]\<close> calls \<open>fetchItems()\<close> of the current
  render. It runs after the mount, and again after each render in which \<open>fetchItems\<close>
  is a new callback: the props being fixed, after each render in which
  \<open>isCompletingAll\<close> has changed (\<open>effectDue\<close>, from the state of the last render to
  the state of this one). Its cleanup, \<open>stopPolling\<close> in vanilla mode, is what
  \<open>fetchItems()\<close> then does itself. The interval callback and \<open>handleMockData\<close> call
  the \<open>fetchItems\<close> of the render their handler ran in, where \<open>isCompletingAll\<close> was
  false (the guard of the handler). A cleared interval does not tick. The hub handlers
  exist in websocket mode only.
\<close>

definition effectDue :: "view_state \<Rightarrow> view_state \<Rightarrow> bool" where
  "effectDue s s' = (isCompletingAll s' \<noteq> isCompletingAll s)"

fun fire :: "TodoListDetailProps \<Rightarrow> event \<Rightarrow> view_state \<Rightarrow> view_state \<times> request list" where
  "fire p FetchItemsEffect s =
     (let (s1, r) = fetchItems_begin p (isCompletingAll s) False s in (s1, [r]))"
| "fire p ModeEffect s = (modeEffect p s, [])"
| "fire p (GetItemsResolved calledDuringPolling data) s =
     (fetchItems_then p calledDuringPolling data s, [])"
| "fire p (GetItemsRejected calledDuringPolling) s =
     (fst (fetchItems_catch p calledDuringPolling s), [])"
| "fire p PollTick s =
     (if pollingIntervalRef s = None then (s, [])
      else (let (s1, r) = fetchItems_begin p False True s in (s1, [r])))"
| "fire p (ReceiveTodoCompletionUpdate updatedListId justCompletedItemId completedCount
       totalCount) s =
     (if mode p = websocket
      then (receiveTodoCompletionUpdate p updatedListId justCompletedItemId completedCount
              totalCount s, [])
      else (s, []))"
| "fire p (Connection c) s =
     (if mode p = websocket then (s\<lparr>error := connectionStatus c\<rparr>, []) else (s, []))"
| "fire p (ChangeNewItemDesc d) s = (s\<lparr>newItemDesc := d\<rparr>, [])"
| "fire p (ChangeEditingItemDesc d) s = (s\<lparr>editingItemDesc := d\<rparr>, [])"
| "fire p (AddItem now parsedListId) s =
     (let (s1, r) = handleAddItem_begin p now parsedListId s in (s1, case_option [] (\<lambda>x. [x]) r))"
| "fire p (AddItemResolved tempId newItem) s = (handleAddItem_then tempId newItem s, [])"
| "fire p (AddItemRejected tempId originalDesc) s =
     (handleAddItem_catch tempId originalDesc s, [])"
| "fire p (ToggleComplete item) s =
     (let (s1, r) = handleToggleComplete_begin p item s in (s1, case_option [] (\<lambda>x. [x]) r))"
| "fire p (ToggleCompleteRejected item) s = (handleToggleComplete_catch item s, [])"
| "fire p (DeleteItem itemId) s =
     (let (s1, r) = handleDeleteItem_begin p itemId s in (s1, case_option [] (\<lambda>x. [x]) r))"
| "fire p (DeleteItemRejected originalItems) s = (handleDeleteItem_catch originalItems s, [])"
| "fire p (StartEditing item) s = (startEditing item s, [])"
| "fire p CancelEditing s = (cancelEditing s, [])"
| "fire p (UpdateItemDesc itemId) s =
     (let (s1, r) = handleUpdateItemDesc_begin p itemId s
      in (s1, case_option [] (\<lambda>x. [fst x]) r))"
| "fire p (UpdateItemDescRejected closureItems itemId originalDesc) s =
     (handleUpdateItemDesc_catch closureItems itemId originalDesc s, [])"
| "fire p MockData s =
     (let (s1, r) = handleMockData_begin p s in (s1, case_option [] (\<lambda>x. [x]) r))"
| "fire p MockDataCreated s =
     (let (s1, r) = fetchItems_begin p False False s in (s1, [r]))"
| "fire p MockDataFailed s = (handleMockData_finally (handleMockData_catch s), [])"
| "fire p MockDataDone s = (handleMockData_finally s, [])"
| "fire p CompleteAll s =
     (let (s1, r) = handleCompleteAll_begin p s in (s1, case_option [] (\<lambda>x. [x]) r))"
| "fire p (CompleteAllResolved t) s = (handleCompleteAll_then p t s, [])"
| "fire p CompleteAllRejected s = (handleCompleteAll_catch p s, [])"

text \<open>The state after a sequence of events.\<close>

definition after :: "TodoListDetailProps \<Rightarrow> event list \<Rightarrow> view_state \<Rightarrow> view_state" where
  "after p es s = foldl (\<lambda>s' e. fst (fire p e s')) s es"

section \<open>Whole handlers\<close>

text \<open>
  A handler from its call to its end: while it is suspended at its \<open>await\<close> the events
  \<open>during\<close> happen, then the call settles with \<open>result\<close>. The result is the state at
  the end of the handler and the requests the handler itself issued.
\<close>

definition handleAddItem ::
  "TodoListDetailProps \<Rightarrow> nat \<Rightarrow> number \<Rightarrow> event list \<Rightarrow> TodoListItem outcome \<Rightarrow> view_state
     \<Rightarrow> view_state \<times> request list" where
  "handleAddItem p now parsedListId during result s =
     (case handleAddItem_begin p now parsedListId s of
        (s1, None) \<Rightarrow> (s1, [])
      | (s1, Some r) \<Rightarrow>
          (let tempId = tempIdOf now;
               originalDesc = newItemDesc s;
               s2 = after p during s1
           in case result of
                Resolved newItem \<Rightarrow> (handleAddItem_then tempId newItem s2, [r])
              | Rejected \<Rightarrow> (handleAddItem_catch tempId originalDesc s2, [r])))"

definition handleToggleComplete ::
  "TodoListDetailProps \<Rightarrow> TodoListItem \<Rightarrow> event list \<Rightarrow> unit outcome \<Rightarrow> view_state
     \<Rightarrow> view_state \<times> request list" where
  "handleToggleComplete p item during result s =
     (case handleToggleComplete_begin p item s of
        (s1, None) \<Rightarrow> (s1, [])
      | (s1, Some r) \<Rightarrow>
          (let s2 = after p during s1
           in case result of
                Resolved u \<Rightarrow> (s2, [r])
              | Rejected \<Rightarrow> (handleToggleComplete_catch item s2, [r])))"

definition handleDeleteItem ::
  "TodoListDetailProps \<Rightarrow> string \<Rightarrow> event list \<Rightarrow> unit outcome \<Rightarrow> view_state
     \<Rightarrow> view_state \<times> request list" where
  "handleDeleteItem p itemId during result s =
     (case handleDeleteItem_begin p itemId s of
        (s1, None) \<Rightarrow> (s1, [])
      | (s1, Some r) \<Rightarrow>
          (let originalItems = items s;
               s2 = after p during s1
           in case result of
                Resolved u \<Rightarrow> (s2, [r])
              | Rejected \<Rightarrow> (handleDeleteItem_catch originalItems s2, [r])))"

definition handleUpdateItemDesc ::
  "TodoListDetailProps \<Rightarrow> string \<Rightarrow> event list \<Rightarrow> unit outcome \<Rightarrow> view_state
     \<Rightarrow> view_state \<times> request list" where
  "handleUpdateItemDesc p itemId during result s =
     (case handleUpdateItemDesc_begin p itemId s of
        (s1, None) \<Rightarrow> (s1, [])
      | (s1, Some (r, originalDesc)) \<Rightarrow>
          (let s2 = after p during s1
           in case result of
                Resolved u \<Rightarrow> (s2, [r])
              | Rejected \<Rightarrow> (handleUpdateItemDesc_catch (items s) itemId originalDesc s2, [r])))"

definition handleCompleteAll ::
  "TodoListDetailProps \<Rightarrow> timeout \<Rightarrow> event list \<Rightarrow> unit outcome \<Rightarrow> view_state
     \<Rightarrow> view_state \<times> request list" where
  "handleCompleteAll p t during result s =
     (case handleCompleteAll_begin p s of
        (s1, None) \<Rightarrow> (s1, [])
      | (s1, Some r) \<Rightarrow>
          (let s2 = after p during s1
           in case result of
                Resolved u \<Rightarrow> (handleCompleteAll_then p t s2, [r])
              | Rejected \<Rightarrow> (handleCompleteAll_catch p s2, [r])))"

text \<open>
  \<open>fetchItems\<close>: the state at its end, the requests it issued, and whether it threw.
\<close>

definition fetchItems ::
  "TodoListDetailProps \<Rightarrow> bool \<Rightarrow> bool \<Rightarrow> event list \<Rightarrow> TodoListItem list outcome \<Rightarrow> view_state
     \<Rightarrow> view_state \<times> request list \<times> bool" where
  "fetchItems p isCompletingAllDep calledDuringPolling during result s =
     (case fetchItems_begin p isCompletingAllDep calledDuringPolling s of
        (s1, r) \<Rightarrow>
          (let s2 = after p during s1
           in case result of
                Resolved data \<Rightarrow> (fetchItems_then p calledDuringPolling data s2, [r], False)
              | Rejected \<Rightarrow>
                  (case fetchItems_catch p calledDuringPolling s2 of
                     (s3, thrown) \<Rightarrow> (s3, [r], thrown))))"

section \<open>Sequences of failed mutations\<close>

text \<open>
  One failed optimistic mutation, run from the user's action to the end of its rollback
  with nothing in between: the user types a description and submits it (\<open>Create\<close>),
  ticks the checkbox of a rendered item (\<open>Toggle\<close>), opens an item for editing, types
  and submits (\<open>Edit\<close>), or deletes (\<open>Delete\<close>); the remote call is rejected.
\<close>

datatype attempt =
    Create string nat number
  | Toggle TodoListItem
  | Edit TodoListItem string
  | Delete string

fun failed :: "TodoListDetailProps \<Rightarrow> attempt \<Rightarrow> view_state \<Rightarrow> view_state" where
  "failed p (Create d now parsedListId) s =
     fst (handleAddItem p now parsedListId [] Rejected (after p [ChangeNewItemDesc d] s))"
| "failed p (Toggle item) s = fst (handleToggleComplete p item [] Rejected s)"
| "failed p (Edit item d) s =
     fst (handleUpdateItemDesc p (id' item) [] Rejected
            (after p [StartEditing item, ChangeEditingItemDesc d] s))"
| "failed p (Delete itemId) s = fst (handleDeleteItem p itemId [] Rejected s)"

text \<open>
  What the screen guarantees of an attempt on the collection \<open>xs\<close>: the checkbox ticked
  belongs to an item of \<open>xs\<close>, and the provisional id is not the id of an item of \<open>xs\<close>.
\<close>

fun applicable :: "TodoListItem list \<Rightarrow> attempt \<Rightarrow> bool" where
  "applicable xs (Create d now parsedListId) = (tempIdOf now \<notin> set (map id' xs))"
| "applicable xs (Toggle item) = (item \<in> set xs)"
| "applicable xs (Edit item d) = True"
| "applicable xs (Delete itemId) = True"

section \<open>Example data\<close>

abbreviation exampleProps :: "mode \<Rightarrow> TodoListDetailProps" where
  "exampleProps m \<equiv> \<lparr>listId = ''5'', listName = ''Home'', mode = m\<rparr>"

abbreviation exampleItem :: "string \<Rightarrow> bool \<Rightarrow> TodoListItem" where
  "exampleItem a c \<equiv>
     \<lparr>id' = a, todoListId = ''5'', description = ''walk the dog'', completed = c,
      listIdNum = None\<rparr>"

text \<open>The component mounts (both effects run) and its first fetch resolves with \<open>xs\<close>.\<close>

abbreviation mounted :: "TodoListItem list \<Rightarrow> event list" where
  "mounted xs \<equiv> [FetchItemsEffect, ModeEffect, GetItemsResolved False xs]"

abbreviation twoItems :: "bool \<Rightarrow> bool \<Rightarrow> TodoListItem list" where
  "twoItems c1 c2 \<equiv> [exampleItem ''1'' c1, exampleItem ''2'' c2]"


text \<open>
  Two incomplete items are shown and complete-all is clicked; \<open>isCompletingAll\<close> has
  changed, so the fetch effect runs, and its fetch resolves. In vanilla mode the
  trigger has resolved and the interval is set; in websocket mode the trigger is
  pending.
\<close>

abbreviation pollingExample :: view_state where
  "pollingExample \<equiv>
     after (exampleProps vanilla)
       (mounted (twoItems False False)
        @ [CompleteAll, FetchItemsEffect, CompleteAllResolved (Timeout 1),
           GetItemsResolved False (twoItems False False)])
       initialState"

abbreviation pushExample :: view_state where
  "pushExample \<equiv>
     after (exampleProps websocket)
       (mounted (twoItems False False)
        @ [CompleteAll, FetchItemsEffect, GetItemsResolved False (twoItems False False)])
       initialState"

text \<open>One incomplete item is shown and the user has typed a new description.\<close>

abbreviation draftExample :: view_state where
  "draftExample \<equiv>
     after (exampleProps websocket)
       (mounted [exampleItem ''1'' False] @ [ChangeNewItemDesc ''buy milk'']) initialState"

section \<open>Basic facts\<close>

lemmas handler_defs =
  stopPolling_def fetchItems_begin_def fetchItems_then_def fetchItems_catch_def
  fetchItems_finally_def modeEffect_def receiveTodoCompletionUpdate_def
  handleAddItem_begin_def handleAddItem_then_def handleAddItem_catch_def
  handleToggleComplete_begin_def handleToggleComplete_catch_def
  handleDeleteItem_begin_def handleDeleteItem_catch_def startEditing_def cancelEditing_def
  handleUpdateItemDesc_begin_def handleUpdateItemDesc_catch_def handleMockData_begin_def
  handleMockData_catch_def handleMockData_finally_def handleCompleteAll_begin_def
  handleCompleteAll_then_def handleCompleteAll_catch_def

lemmas string_defs = trim_def isWhiteSpace_def toString_def tempIdOf_def digits.simps

lemma after_Nil [simp]: "after p [] s = s"
  by (simp add: after_def)

lemma after_Cons [simp]: "after p (e # es) s = after p es (fst (fire p e s))"
  by (simp add: after_def)


lemma stopPolling_fields [simp]:
  "pollingIntervalRef (stopPolling s) = None"
  "isCompletingAll (stopPolling s) = isCompletingAll s"
  "isMocking (stopPolling s) = isMocking s"
  "completionProgress (stopPolling s) = completionProgress s"
  "items (stopPolling s) = items s"
  "error (stopPolling s) = error s"
  "loading (stopPolling s) = loading s"
  by (simp_all add: stopPolling_def split: option.splits)

subsection \<open>The first index\<close>

lemma findIndex_None: "findIndex P xs = None \<longleftrightarrow> (\<forall>x \<in> set xs. \<not> P x)"
  by (induction xs) auto

lemma findIndex_first:
  "\<forall>y \<in> set ys. \<not> P y \<Longrightarrow> P x \<Longrightarrow> findIndex P (ys @ x # zs) = Some (length ys)"
  by (induction ys) auto

lemma markCompleted_absent:
  assumes "\<forall>y \<in> set xs. id' y \<noteq> a"
  shows "markCompleted a xs = xs"
proof -
  from assms have "findIndex (\<lambda>item. id' item = a) xs = None"
    by (simp add: findIndex_None)
  then show ?thesis by (simp add: markCompleted_def)
qed

lemma markCompleted_first:
  assumes "\<forall>y \<in> set ys. id' y \<noteq> a" and "id' x = a"
  shows "markCompleted a (ys @ x # zs) =
           (if completed x then ys @ x # zs else ys @ x\<lparr>completed := True\<rparr> # zs)"
proof -
  from assms have "findIndex (\<lambda>item. id' item = a) (ys @ x # zs) = Some (length ys)"
    by (intro findIndex_first) simp_all
  then show ?thesis by (simp add: markCompleted_def)
qed

lemma markCompleted_idem: "markCompleted a (markCompleted a xs) = markCompleted a xs"
proof (cases "\<exists>x \<in> set xs. id' x = a")
  case False
  then show ?thesis by (simp add: markCompleted_absent)
next
  case True
  then obtain ys x zs where xs: "xs = ys @ x # zs" and x: "id' x = a"
    and ys: "\<forall>y \<in> set ys. id' y \<noteq> a"
    using split_list_first_prop [of xs "\<lambda>x. id' x = a"] by blast
  show ?thesis
  proof (cases "completed x")
    case True
    with xs ys x show ?thesis by (simp add: markCompleted_first)
  next
    case False
    have "markCompleted a xs = ys @ x\<lparr>completed := True\<rparr> # zs"
      using xs ys x False by (simp add: markCompleted_first)
    moreover have "markCompleted a (ys @ x\<lparr>completed := True\<rparr> # zs)
        = ys @ x\<lparr>completed := True\<rparr> # zs"
      using ys x by (simp add: markCompleted_first)
    ultimately show ?thesis by simp
  qed
qed

lemma receive_items:
  "items (receiveTodoCompletionUpdate p u j c t s) =
     (case j of
        None \<Rightarrow> items s
      | Some a \<Rightarrow>
          if hubIdStr u = Some (trim (listId p)) \<and> trim (listId p) \<noteq> [] \<and> a \<noteq> []
          then markCompleted a (items s) else items s)"
  by (auto simp: receiveTodoCompletionUpdate_def Let_def split: option.splits)

section \<open>Marking an item completed from a push event\<close>

text \<open>
  C8. Marking an item completed from a push event is idempotent and total. If no item
  of the collection has the id, the collection is unchanged. Otherwise the item
  concerned is the first one with that id: if it is already completed the collection is
  unchanged, and if not, exactly that item gets \<open>completed = True\<close> and nothing else
  changes. Marking twice is marking once. The handler changes the collection by this
  marking only, and only for a non-empty item id on an event of the viewed list.
\<close>

theorem markCompleted_idempotent_total:
  "((\<forall>y \<in> set xs. id' y \<noteq> a) \<longrightarrow> markCompleted a xs = xs)
 \<and> ((\<forall>y \<in> set ys. id' y \<noteq> a) \<and> id' xc = a \<and> completed xc \<longrightarrow>
      markCompleted a (ys @ xc # zs) = ys @ xc # zs)
 \<and> ((\<forall>y \<in> set ys. id' y \<noteq> a) \<and> id' xn = a \<and> \<not> completed xn \<longrightarrow>
      markCompleted a (ys @ xn # zs) = ys @ xn\<lparr>completed := True\<rparr> # zs)
 \<and> markCompleted a (markCompleted a xs) = markCompleted a xs
 \<and> length (markCompleted a xs) = length xs
 \<and> items (receiveTodoCompletionUpdate p u j c t s) =
     (case j of
        None \<Rightarrow> items s
      | Some b \<Rightarrow>
          if hubIdStr u = Some (trim (listId p)) \<and> trim (listId p) \<noteq> [] \<and> b \<noteq> []
          then markCompleted b (items s) else items s)"
proof -
  have "length (markCompleted a xs) = length xs"
    by (simp add: markCompleted_def split: option.splits)
  then show ?thesis
    by (simp add: markCompleted_absent markCompleted_first markCompleted_idem receive_items)
qed

text \<open>
  C8, at a collection of three items: the id \<open>''7''\<close> is absent, \<open>''42''\<close> is the id of
  the second item, once completed and once not.
\<close>

theorem markCompleted_idempotent_total_witness:
  "''7'' \<notin> set (map id' [exampleItem ''41'' False, exampleItem ''42'' False])
 \<and> ''42'' \<notin> set (map id' [exampleItem ''41'' False])
 \<and> id' (exampleItem ''42'' True) = ''42'' \<and> completed (exampleItem ''42'' True)
 \<and> id' (exampleItem ''42'' False) = ''42'' \<and> \<not> completed (exampleItem ''42'' False)
 \<and> markCompleted ''7'' [exampleItem ''41'' False, exampleItem ''42'' False]
      = [exampleItem ''41'' False, exampleItem ''42'' False]
 \<and> markCompleted ''42'' ([exampleItem ''41'' False] @ exampleItem ''42'' True # [exampleItem ''43'' False])
      = [exampleItem ''41'' False] @ exampleItem ''42'' True # [exampleItem ''43'' False]
 \<and> markCompleted ''42'' ([exampleItem ''41'' False] @ exampleItem ''42'' False # [exampleItem ''43'' False])
      = [exampleItem ''41'' False] @ (exampleItem ''42'' False)\<lparr>completed := True\<rparr> # [exampleItem ''43'' False]"
proof -
  have h1: "\<forall>y \<in> set [exampleItem ''41'' False, exampleItem ''42'' False]. id' y \<noteq> ''7''"
    by simp
  have h2: "\<forall>y \<in> set [exampleItem ''41'' False]. id' y \<noteq> ''42''"
    by simp
  have h3: "id' (exampleItem ''42'' True) = ''42'' \<and> completed (exampleItem ''42'' True)"
    by simp
  have h4: "id' (exampleItem ''42'' False) = ''42'' \<and> \<not> completed (exampleItem ''42'' False)"
    by simp
  note absent_case = markCompleted_idempotent_total
    [where xs = "[exampleItem ''41'' False, exampleItem ''42'' False]" and a = "''7''"]
  note present_case = markCompleted_idempotent_total
    [where ys = "[exampleItem ''41'' False]" and a = "''42''"
       and xc = "exampleItem ''42'' True" and xn = "exampleItem ''42'' False"
       and zs = "[exampleItem ''43'' False]"]
  from absent_case h1 have c1: "markCompleted ''7'' [exampleItem ''41'' False, exampleItem ''42'' False]
      = [exampleItem ''41'' False, exampleItem ''42'' False]"
    by blast
  from present_case h2 h3 have c2:
    "markCompleted ''42'' ([exampleItem ''41'' False] @ exampleItem ''42'' True # [exampleItem ''43'' False])
      = [exampleItem ''41'' False] @ exampleItem ''42'' True # [exampleItem ''43'' False]"
    by blast
  from present_case h2 h4 have c3:
    "markCompleted ''42'' ([exampleItem ''41'' False] @ exampleItem ''42'' False # [exampleItem ''43'' False])
      = [exampleItem ''41'' False] @ (exampleItem ''42'' False)\<lparr>completed := True\<rparr> # [exampleItem ''43'' False]"
    by blast
  have "''7'' \<notin> set (map id' [exampleItem ''41'' False, exampleItem ''42'' False])"
    and "''42'' \<notin> set (map id' [exampleItem ''41'' False])"
    by simp_all
  with h3 h4 c1 c2 c3 show ?thesis by blast
qed

section \<open>Toggling the completion of an item\<close>

lemma onlyCompleted_map:
  fixes xs :: "TodoListItem list" and a :: string and c :: "TodoListItem \<Rightarrow> bool"
  defines "ys \<equiv> map (\<lambda>i. if id' i = a then i\<lparr>completed := c i\<rparr> else i) xs"
  shows "length ys = length xs
       \<and> (\<forall>j < length xs. (ys ! j)\<lparr>completed := completed (xs ! j)\<rparr> = xs ! j
             \<and> (id' (xs ! j) \<noteq> a \<longrightarrow> ys ! j = xs ! j))
       \<and> ((\<forall>i \<in> set xs. id' i \<noteq> a) \<longrightarrow> ys = xs)
       \<and> (distinct (map id' xs) \<longrightarrow>
            (\<forall>j < length xs. \<forall>k < length xs. ys ! j \<noteq> xs ! j \<and> ys ! k \<noteq> xs ! k \<longrightarrow> j = k))"
proof -
  have same: "\<And>j. j < length xs \<Longrightarrow> id' (xs ! j) \<noteq> a \<Longrightarrow> ys ! j = xs ! j"
    by (simp add: ys_def)
  have rest: "\<And>j. j < length xs \<Longrightarrow> (ys ! j)\<lparr>completed := completed (xs ! j)\<rparr> = xs ! j"
    by (simp add: ys_def)
  have absent: "(\<forall>i \<in> set xs. id' i \<noteq> a) \<Longrightarrow> ys = xs"
    by (simp add: ys_def map_idI)
  have one: "j = k"
    if d: "distinct (map id' xs)" and j: "j < length xs" and k: "k < length xs"
      and cj: "ys ! j \<noteq> xs ! j" and ck: "ys ! k \<noteq> xs ! k" for j k
  proof -
    from cj j same have "id' (xs ! j) = a" by blast
    moreover from ck k same have "id' (xs ! k) = a" by blast
    ultimately have "map id' xs ! j = map id' xs ! k" using j k by simp
    with d j k nth_eq_iff_index_eq [of "map id' xs" j k] show ?thesis by simp
  qed
  show ?thesis
  proof (intro conjI allI impI)
    show "length ys = length xs" by (simp add: ys_def)
  next
    fix j assume "j < length xs"
    then show "(ys ! j)\<lparr>completed := completed (xs ! j)\<rparr> = xs ! j" by (rule rest)
  next
    fix j assume "j < length xs" "id' (xs ! j) \<noteq> a"
    then show "ys ! j = xs ! j" by (rule same)
  next
    assume "\<forall>i \<in> set xs. id' i \<noteq> a"
    then show "ys = xs" by (rule absent)
  next
    fix j k
    assume "distinct (map id' xs)" "j < length xs" "k < length xs"
      "ys ! j \<noteq> xs ! j \<and> ys ! k \<noteq> xs ! k"
    then show "j = k" using one by blast
  qed
qed

lemma toggle_begin_items:
  "items (fst (handleToggleComplete_begin p item s)) = items s
 \<or> items (fst (handleToggleComplete_begin p item s))
      = map (\<lambda>i. if id' i = id' item then i\<lparr>completed := \<not> completed i\<rparr> else i) (items s)"
  by (simp add: handleToggleComplete_begin_def Let_def)

lemma toggle_catch_items:
  "items (handleToggleComplete_catch item s)
     = map (\<lambda>i. if id' i = id' item then i\<lparr>completed := completed item\<rparr> else i) (items s)"
  by (simp add: handleToggleComplete_catch_def Let_def)

text \<open>
  C9. The optimistic toggle and its rollback keep the length and the order of the
  collection; at every position the item keeps all its fields but \<open>completed\<close>; an item
  whose id is not the toggled one is unchanged; if no item has the id the collection is
  unchanged; and when ids are unique at most one position changes.
\<close>

theorem toggle_changes_only_completed:
  assumes "ys = items (fst (handleToggleComplete_begin p item s))
         \<or> ys = items (handleToggleComplete_catch item s)"
  shows "length ys = length (items s)
       \<and> (\<forall>j < length (items s).
             (ys ! j)\<lparr>completed := completed (items s ! j)\<rparr> = items s ! j
             \<and> (id' (items s ! j) \<noteq> id' item \<longrightarrow> ys ! j = items s ! j))
       \<and> ((\<forall>i \<in> set (items s). id' i \<noteq> id' item) \<longrightarrow> ys = items s)
       \<and> (distinct (map id' (items s)) \<longrightarrow>
            (\<forall>j < length (items s). \<forall>k < length (items s).
               ys ! j \<noteq> items s ! j \<and> ys ! k \<noteq> items s ! k \<longrightarrow> j = k))"
proof -
  let ?goal = "\<lambda>zs. length zs = length (items s)
       \<and> (\<forall>j < length (items s).
             (zs ! j)\<lparr>completed := completed (items s ! j)\<rparr> = items s ! j
             \<and> (id' (items s ! j) \<noteq> id' item \<longrightarrow> zs ! j = items s ! j))
       \<and> ((\<forall>i \<in> set (items s). id' i \<noteq> id' item) \<longrightarrow> zs = items s)
       \<and> (distinct (map id' (items s)) \<longrightarrow>
            (\<forall>j < length (items s). \<forall>k < length (items s).
               zs ! j \<noteq> items s ! j \<and> zs ! k \<noteq> items s ! k \<longrightarrow> j = k))"
  have unchanged: "?goal (items s)" by simp
  have toggled: "?goal (map (\<lambda>i. if id' i = id' item then i\<lparr>completed := \<not> completed i\<rparr>
                                  else i) (items s))"
    by (rule onlyCompleted_map [where a = "id' item" and c = "\<lambda>i. \<not> completed i"])
  have restored: "?goal (map (\<lambda>i. if id' i = id' item then i\<lparr>completed := completed item\<rparr>
                                   else i) (items s))"
    by (rule onlyCompleted_map [where a = "id' item" and c = "\<lambda>i. completed item"])
  from assms show ?thesis
  proof
    assume ys: "ys = items (fst (handleToggleComplete_begin p item s))"
    from toggle_begin_items [of p item s] show ?thesis
    proof
      assume "items (fst (handleToggleComplete_begin p item s)) = items s"
      with ys have "ys = items s" by simp
      with unchanged show ?thesis by blast
    next
      assume "items (fst (handleToggleComplete_begin p item s))
        = map (\<lambda>i. if id' i = id' item then i\<lparr>completed := \<not> completed i\<rparr> else i) (items s)"
      with ys have "ys = map (\<lambda>i. if id' i = id' item then i\<lparr>completed := \<not> completed i\<rparr>
                                 else i) (items s)"
        by simp
      with toggled show ?thesis by blast
    qed
  next
    assume "ys = items (handleToggleComplete_catch item s)"
    with toggle_catch_items [of item s]
    have "ys = map (\<lambda>i. if id' i = id' item then i\<lparr>completed := completed item\<rparr> else i)
                 (items s)"
      by simp
    with restored show ?thesis by blast
  qed
qed

text \<open>
  C9, on the collection of items \<open>''1''\<close> and \<open>''2''\<close> when the checkbox of \<open>''1''\<close> is
  ticked: the item at the second position is untouched, the one at the first position
  differs from the original in \<open>completed\<close> only.
\<close>

theorem toggle_changes_only_completed_witness:
  "(1::nat) < length (items (initialState\<lparr>items := [exampleItem ''1'' False, exampleItem ''2'' True]\<rparr>))
 \<and> id' (items (initialState\<lparr>items := [exampleItem ''1'' False, exampleItem ''2'' True]\<rparr>) ! 1)
      \<noteq> id' (exampleItem ''1'' False)
 \<and> items (fst (handleToggleComplete_begin (exampleProps websocket) (exampleItem ''1'' False)
      (initialState\<lparr>items := [exampleItem ''1'' False, exampleItem ''2'' True]\<rparr>))) ! 1
      = exampleItem ''2'' True
 \<and> (items (fst (handleToggleComplete_begin (exampleProps websocket) (exampleItem ''1'' False)
      (initialState\<lparr>items := [exampleItem ''1'' False, exampleItem ''2'' True]\<rparr>))) ! 0)
      \<lparr>completed := False\<rparr> = exampleItem ''1'' False"
proof -
  let ?s = "initialState\<lparr>items := [exampleItem ''1'' False, exampleItem ''2'' True]\<rparr>"
  let ?ys = "items (fst (handleToggleComplete_begin (exampleProps websocket)
               (exampleItem ''1'' False) ?s))"
  have h1: "(1::nat) < length (items ?s)" by simp
  have h0: "(0::nat) < length (items ?s)" by simp
  have h2: "id' (items ?s ! 1) \<noteq> id' (exampleItem ''1'' False)" by simp
  have "?ys = ?ys \<or> ?ys = items (handleToggleComplete_catch (exampleItem ''1'' False) ?s)"
    by simp
  from toggle_changes_only_completed [OF this]
  have frame: "\<forall>j < length (items ?s).
      (?ys ! j)\<lparr>completed := completed (items ?s ! j)\<rparr> = items ?s ! j
      \<and> (id' (items ?s ! j) \<noteq> id' (exampleItem ''1'' False) \<longrightarrow> ?ys ! j = items ?s ! j)"
    by blast
  from frame h1 h2 have c1: "?ys ! 1 = items ?s ! 1" by blast
  from frame h0 have c0: "(?ys ! 0)\<lparr>completed := completed (items ?s ! 0)\<rparr> = items ?s ! 0"
    by blast
  from h1 h2 c1 c0 show ?thesis by simp
qed

section \<open>The bulk operation\<close>

text \<open>
  C4. On a collection that is empty, or whose items are all completed, the complete-all
  handler returns at once whatever happens elsewhere: the state is the one it was
  called in (so an idle state stays idle and no progress is set) and no request is
  issued.
\<close>

theorem completeAll_nothing_to_do:
  assumes "items s = [] \<or> list_all completed (items s)"
  shows "handleCompleteAll p t during result s = (s, [])"
proof -
  from assms have "filter (\<lambda>item. \<not> completed item) (items s) = []"
    by (auto simp: list_all_iff filter_empty_conv)
  then have "handleCompleteAll_begin p s = (s, None)"
    by (simp add: handleCompleteAll_begin_def)
  then show ?thesis by (simp add: handleCompleteAll_def)
qed

text \<open>C4, in websocket mode on a collection of two completed items.\<close>

theorem completeAll_nothing_to_do_witness:
  "list_all completed
     (items (initialState\<lparr>items := [exampleItem ''1'' True, exampleItem ''2'' True]\<rparr>))
 \<and> handleCompleteAll (exampleProps websocket) (Timeout 1) [] (Resolved ())
      (initialState\<lparr>items := [exampleItem ''1'' True, exampleItem ''2'' True]\<rparr>)
    = (initialState\<lparr>items := [exampleItem ''1'' True, exampleItem ''2'' True]\<rparr>, [])"
proof -
  have h: "list_all completed
     (items (initialState\<lparr>items := [exampleItem ''1'' True, exampleItem ''2'' True]\<rparr>))"
    by simp
  then have "items (initialState\<lparr>items := [exampleItem ''1'' True, exampleItem ''2'' True]\<rparr>) = []
     \<or> list_all completed
         (items (initialState\<lparr>items := [exampleItem ''1'' True, exampleItem ''2'' True]\<rparr>))"
    by (rule disjI2)
  from h completeAll_nothing_to_do [OF this] show ?thesis by (rule conjI)
qed

subsection \<open>The example states\<close>

lemma pollingExample_state:
  "pollingExample =
     \<lparr>items = twoItems False False, newItemDesc = [], loading = False, error = None,
      isMocking = False, isCompletingAll = True, editingItemId = None, editingItemDesc = [],
      completionProgress = None, pollingIntervalRef = Some (Timeout 1)\<rparr>"
  by (simp add: initialState_def handler_defs Let_def)

lemma pushExample_state:
  "pushExample =
     \<lparr>items = twoItems False False, newItemDesc = [], loading = False, error = None,
      isMocking = False, isCompletingAll = True, editingItemId = None, editingItemDesc = [],
      completionProgress = Some (0, 2), pollingIntervalRef = None\<rparr>"
  by (simp add: initialState_def handler_defs Let_def)

section \<open>Polling\<close>

text \<open>
  C3. In vanilla mode, when a fetch of the polling cadence resolves, the collection is
  replaced by the result; if the result is non-empty and all its items are completed
  the interval is cleared and \<open>isCompletingAll\<close> is false; if the result is empty or has
  an incomplete item, the interval ref and \<open>isCompletingAll\<close> are what they were when
  the result arrived.
\<close>

theorem poll_result:
  assumes "mode p = vanilla"
  shows "case fetchItems p dep True during (Resolved data) s of (s', reqs, thrown) \<Rightarrow>
           items s' = data
         \<and> (data \<noteq> [] \<and> list_all completed data \<longrightarrow>
              pollingIntervalRef s' = None \<and> \<not> isCompletingAll s')
         \<and> (data = [] \<or> \<not> list_all completed data \<longrightarrow>
              pollingIntervalRef s' = pollingIntervalRef (after p during s)
            \<and> isCompletingAll s' = isCompletingAll (after p during s))"
  using assms
  by (simp add: fetchItems_def fetchItems_begin_def fetchItems_then_def fetchItems_finally_def
      Let_def)

text \<open>
  C3, on the scenario of two incomplete items in poll mode: a poll that returns both
  still incomplete leaves the operation running and the interval set; a poll that
  returns both completed clears the interval and ends the operation.
\<close>

theorem poll_result_witness:
  "mode (exampleProps vanilla) = vanilla
 \<and> isCompletingAll pollingExample \<and> pollingIntervalRef pollingExample = Some (Timeout 1)
 \<and> isCompletingAll (fst (fetchItems (exampleProps vanilla) False True []
      (Resolved (twoItems False False)) pollingExample))
 \<and> pollingIntervalRef (fst (fetchItems (exampleProps vanilla) False True []
      (Resolved (twoItems False False)) pollingExample)) = Some (Timeout 1)
 \<and> \<not> isCompletingAll (fst (fetchItems (exampleProps vanilla) False True []
      (Resolved (twoItems True True)) pollingExample))
 \<and> pollingIntervalRef (fst (fetchItems (exampleProps vanilla) False True []
      (Resolved (twoItems True True)) pollingExample)) = None"
proof -
  have h: "mode (exampleProps vanilla) = vanilla" by simp
  have running: "isCompletingAll pollingExample"
    "pollingIntervalRef pollingExample = Some (Timeout 1)"
    by (simp_all only: pollingExample_state) simp_all
  have incomplete: "twoItems False False = [] \<or> \<not> list_all completed (twoItems False False)"
    by simp
  have complete: "twoItems True True \<noteq> [] \<and> list_all completed (twoItems True True)"
    by simp
  from poll_result [OF h, where dep = False and during = "[]"
      and data = "twoItems False False" and s = pollingExample] incomplete
  have first: "pollingIntervalRef (fst (fetchItems (exampleProps vanilla) False True []
        (Resolved (twoItems False False)) pollingExample)) = pollingIntervalRef pollingExample
      \<and> isCompletingAll (fst (fetchItems (exampleProps vanilla) False True []
        (Resolved (twoItems False False)) pollingExample)) = isCompletingAll pollingExample"
    by (simp only: case_prod_beta after_Nil)
  from poll_result [OF h, where dep = False and during = "[]"
      and data = "twoItems True True" and s = pollingExample] complete
  have second: "pollingIntervalRef (fst (fetchItems (exampleProps vanilla) False True []
        (Resolved (twoItems True True)) pollingExample)) = None
      \<and> \<not> isCompletingAll (fst (fetchItems (exampleProps vanilla) False True []
        (Resolved (twoItems True True)) pollingExample))"
    by (simp only: case_prod_beta) blast
  from h running first second show ?thesis by simp
qed



section \<open>A manual fetch in poll mode\<close>





section \<open>A trigger that fails\<close>





section \<open>Completion reported by the hub\<close>

lemma receive_full_idle:
  assumes "hubIdStr u = Some (trim (listId p))" "trim (listId p) \<noteq> []" "0 < t"
  shows "\<not> isCompletingAll (receiveTodoCompletionUpdate p u j t t s)
       \<and> completionProgress (receiveTodoCompletionUpdate p u j t t s) = None"
  using assms by (simp add: receiveTodoCompletionUpdate_def Let_def split: option.splits)

lemma receive_stray_idle:
  assumes "\<not> isCompletingAll s" "completionProgress s = None" "0 < t"
  shows "\<not> isCompletingAll (receiveTodoCompletionUpdate p u j t t s)
       \<and> completionProgress (receiveTodoCompletionUpdate p u j t t s) = None"
  using assms by (simp add: receiveTodoCompletionUpdate_def Let_def split: option.splits)

lemma strays_idle:
  assumes "0 < t"
  shows "\<not> isCompletingAll s \<Longrightarrow> completionProgress s = None \<Longrightarrow>
     \<not> isCompletingAll
         (after p (map (\<lambda>(u, j). ReceiveTodoCompletionUpdate u j t t) strays) s)
     \<and> completionProgress
         (after p (map (\<lambda>(u, j). ReceiveTodoCompletionUpdate u j t t) strays) s) = None"
proof (induction strays arbitrary: s)
  case Nil
  then show ?case by simp
next
  case (Cons x strays)
  obtain u j where x: "x = (u, j)" by (cases x)
  let ?s = "fst (fire p (ReceiveTodoCompletionUpdate u j t t) s)"
  have "\<not> isCompletingAll ?s \<and> completionProgress ?s = None"
    using receive_stray_idle [OF Cons.prems assms] Cons.prems by simp
  then show ?case using Cons.IH [of ?s] x by simp
qed

text \<open>
  C2. In websocket mode, an event of the viewed list (the two ids, as trimmed strings,
  are non-empty and equal) with \<open>completedCount = totalCount > 0\<close> leaves
  \<open>isCompletingAll\<close> false and the progress cleared, whatever the state before; and after
  any further events with the same counts, for any list and any item, both still hold.
\<close>

theorem push_completion:
  assumes "mode p = websocket"
    and "hubIdStr updatedListId = Some (trim (listId p))" and "trim (listId p) \<noteq> []"
    and "completedCount = totalCount" and "0 < totalCount"
  shows "\<not> isCompletingAll (fst (fire p (ReceiveTodoCompletionUpdate updatedListId
            justCompletedItemId completedCount totalCount) s))
       \<and> completionProgress (fst (fire p (ReceiveTodoCompletionUpdate updatedListId
            justCompletedItemId completedCount totalCount) s)) = None
       \<and> \<not> isCompletingAll (after p
            (ReceiveTodoCompletionUpdate updatedListId justCompletedItemId completedCount
               totalCount
             # map (\<lambda>(u, j). ReceiveTodoCompletionUpdate u j completedCount totalCount) strays) s)
       \<and> completionProgress (after p
            (ReceiveTodoCompletionUpdate updatedListId justCompletedItemId completedCount
               totalCount
             # map (\<lambda>(u, j). ReceiveTodoCompletionUpdate u j completedCount totalCount) strays) s)
           = None"
proof -
  let ?s = "fst (fire p (ReceiveTodoCompletionUpdate updatedListId justCompletedItemId
               completedCount totalCount) s)"
  have first: "\<not> isCompletingAll ?s \<and> completionProgress ?s = None"
    using assms(1,4) receive_full_idle [OF assms(2,3,5)] by simp
  with strays_idle [OF assms(5), of ?s p strays] assms(4) show ?thesis by simp
qed

text \<open>
  C2, on the running example in websocket mode: the hub reports the list as the number
  5, the second item as just completed, and 2 of 2; two more events with the same
  counts follow.
\<close>

theorem push_completion_witness:
  "mode (exampleProps websocket) = websocket
 \<and> hubIdStr (IdNumber 5) = Some (trim (listId (exampleProps websocket)))
 \<and> trim (listId (exampleProps websocket)) \<noteq> []
 \<and> (0::int) < 2
 \<and> isCompletingAll pushExample \<and> completionProgress pushExample = Some (0, 2)
 \<and> \<not> isCompletingAll (fst (fire (exampleProps websocket)
        (ReceiveTodoCompletionUpdate (IdNumber 5) (Some ''2'') 2 2) pushExample))
 \<and> completionProgress (fst (fire (exampleProps websocket)
        (ReceiveTodoCompletionUpdate (IdNumber 5) (Some ''2'') 2 2) pushExample)) = None
 \<and> \<not> isCompletingAll (after (exampleProps websocket)
        [ReceiveTodoCompletionUpdate (IdNumber 5) (Some ''2'') 2 2,
         ReceiveTodoCompletionUpdate (IdString '' 5'') (Some ''1'') 2 2,
         ReceiveTodoCompletionUpdate (IdNumber 6) None 2 2] pushExample)
 \<and> completionProgress (after (exampleProps websocket)
        [ReceiveTodoCompletionUpdate (IdNumber 5) (Some ''2'') 2 2,
         ReceiveTodoCompletionUpdate (IdString '' 5'') (Some ''1'') 2 2,
         ReceiveTodoCompletionUpdate (IdNumber 6) None 2 2] pushExample) = None"
proof -
  have h1: "mode (exampleProps websocket) = websocket" by simp
  have h2: "hubIdStr (IdNumber 5) = Some (trim (listId (exampleProps websocket)))"
    by (simp add: string_defs)
  have h3: "trim (listId (exampleProps websocket)) \<noteq> []"
    by (simp add: string_defs)
  have h4: "(2::int) = 2" by simp
  have h5: "(0::int) < 2" by simp
  have running: "isCompletingAll pushExample" "completionProgress pushExample = Some (0, 2)"
    by (simp_all only: pushExample_state) simp_all
  note at_example = push_completion [OF h1 h2 h3 h4 h5, where s = pushExample
      and justCompletedItemId = "Some ''2''"
      and strays = "[(IdString '' 5'', Some ''1''), (IdNumber 6, None)]"]
  from at_example [unfolded list.map prod.case]
  have "\<not> isCompletingAll (fst (fire (exampleProps websocket)
        (ReceiveTodoCompletionUpdate (IdNumber 5) (Some ''2'') 2 2) pushExample))
   \<and> completionProgress (fst (fire (exampleProps websocket)
        (ReceiveTodoCompletionUpdate (IdNumber 5) (Some ''2'') 2 2) pushExample)) = None
   \<and> \<not> isCompletingAll (after (exampleProps websocket)
        [ReceiveTodoCompletionUpdate (IdNumber 5) (Some ''2'') 2 2,
         ReceiveTodoCompletionUpdate (IdString '' 5'') (Some ''1'') 2 2,
         ReceiveTodoCompletionUpdate (IdNumber 6) None 2 2] pushExample)
   \<and> completionProgress (after (exampleProps websocket)
        [ReceiveTodoCompletionUpdate (IdNumber 5) (Some ''2'') 2 2,
         ReceiveTodoCompletionUpdate (IdString '' 5'') (Some ''1'') 2 2,
         ReceiveTodoCompletionUpdate (IdNumber 6) None 2 2] pushExample) = None"
    by blast
  with h1 h2 h3 h5 running show ?thesis by blast
qed

section \<open>A creation that fails\<close>

text \<open>
  C10. When the guards of \<open>handleAddItem\<close> pass and the remote creation is rejected,
  whatever events happened during the request: the draft is the description that was
  submitted (the optimistic step had emptied it), no item of the collection has the
  provisional id, the collection is the one the rejection found without the provisional
  item, the error status is set, and the one request was the creation.
\<close>

theorem add_failure_restores_draft:
  assumes "trim (newItemDesc s) \<noteq> []" "\<not> isCompletingAll s" "\<not> isMocking s"
  shows "case handleAddItem p now parsedListId during Rejected s of (s', reqs) \<Rightarrow>
           newItemDesc s' = newItemDesc s
         \<and> newItemDesc (fst (handleAddItem_begin p now parsedListId s)) = []
         \<and> (\<forall>i \<in> set (items s'). id' i \<noteq> tempIdOf now)
         \<and> items s' = filter (\<lambda>item. id' item \<noteq> tempIdOf now)
                         (items (after p during (fst (handleAddItem_begin p now parsedListId s))))
         \<and> error s' = Some ''Failed to add item.''
         \<and> reqs = [createTodoListItem (listId p) (newItemDesc s)]"
  using assms
  by (simp add: handleAddItem_def handleAddItem_begin_def handleAddItem_catch_def Let_def)

lemma draftExample_state:
  "draftExample =
     \<lparr>items = [exampleItem ''1'' False], newItemDesc = ''buy milk'', loading = False,
      error = None, isMocking = False, isCompletingAll = False, editingItemId = None,
      editingItemDesc = [], completionProgress = None, pollingIntervalRef = None\<rparr>"
  by (simp add: initialState_def handler_defs Let_def)

text \<open>
  C10, on the scenario of the description \<open>''buy milk''\<close> whose creation fails: the
  draft, emptied by the optimistic step, is \<open>''buy milk''\<close> again, and the collection is
  the one before.
\<close>

theorem add_failure_restores_draft_witness:
  "trim (newItemDesc draftExample) \<noteq> [] \<and> \<not> isCompletingAll draftExample
 \<and> \<not> isMocking draftExample
 \<and> newItemDesc (fst (handleAddItem_begin (exampleProps websocket) 1700 (Number 5)
      draftExample)) = []
 \<and> newItemDesc (fst (handleAddItem (exampleProps websocket) 1700 (Number 5) [] Rejected
      draftExample)) = ''buy milk''
 \<and> items (fst (handleAddItem (exampleProps websocket) 1700 (Number 5) [] Rejected
      draftExample)) = [exampleItem ''1'' False]
 \<and> error (fst (handleAddItem (exampleProps websocket) 1700 (Number 5) [] Rejected
      draftExample)) = Some ''Failed to add item.''"
proof -
  have h1: "trim (newItemDesc draftExample) \<noteq> []"
    by (simp only: draftExample_state) (simp add: string_defs)
  have h2: "\<not> isCompletingAll draftExample" and h3: "\<not> isMocking draftExample"
    and draft: "newItemDesc draftExample = ''buy milk''"
    by (simp_all only: draftExample_state) simp_all
  note at_example = add_failure_restores_draft [OF h1 h2 h3, where p = "exampleProps websocket"
      and now = 1700 and parsedListId = "Number 5" and during = "[]",
      unfolded case_prod_beta]
  from at_example draft have c1:
    "newItemDesc (fst (handleAddItem (exampleProps websocket) 1700 (Number 5) [] Rejected
        draftExample)) = ''buy milk''"
    by simp
  from at_example have c2:
    "newItemDesc (fst (handleAddItem_begin (exampleProps websocket) 1700 (Number 5)
        draftExample)) = []"
    by blast
  from at_example have c3:
    "error (fst (handleAddItem (exampleProps websocket) 1700 (Number 5) [] Rejected
        draftExample)) = Some ''Failed to add item.''"
    by blast
  have c4: "items (fst (handleAddItem (exampleProps websocket) 1700 (Number 5) [] Rejected
      draftExample)) = [exampleItem ''1'' False]"
    by (simp only: draftExample_state)
      (simp add: handleAddItem_def handleAddItem_begin_def handleAddItem_catch_def Let_def
        string_defs)
  from h1 h2 h3 c1 c2 c3 c4 show ?thesis by blast
qed

section \<open>Rollback of a failed mutation\<close>

lemma filter_fresh:
  "a \<notin> set (map id' xs) \<Longrightarrow> filter (\<lambda>item. id' item \<noteq> a) xs = xs"
  by (induction xs) auto

lemma add_rollback:
  assumes "tempIdOf now \<notin> set (map id' (items s))"
  shows "items (fst (handleAddItem p now n [] Rejected s)) = items s"
  using assms
  by (simp add: handleAddItem_def handleAddItem_begin_def handleAddItem_catch_def Let_def
      filter_fresh)

lemma toggle_map_back:
  assumes "distinct (map id' xs)" "item \<in> set xs"
  shows "map (\<lambda>i. if id' i = id' item then i\<lparr>completed := completed item\<rparr> else i)
           (map (\<lambda>i. if id' i = id' item then i\<lparr>completed := \<not> completed i\<rparr> else i) xs)
         = xs"
proof -
  have same: "i = item" if "i \<in> set xs" "id' i = id' item" for i
    using that assms by (meson distinct_map inj_onD)
  have "(if id' (if id' i = id' item then i\<lparr>completed := \<not> completed i\<rparr> else i) = id' item
         then (if id' i = id' item then i\<lparr>completed := \<not> completed i\<rparr> else i)
                \<lparr>completed := completed item\<rparr>
         else (if id' i = id' item then i\<lparr>completed := \<not> completed i\<rparr> else i)) = i"
    if "i \<in> set xs" for i
  proof (cases "id' i = id' item")
    case True
    with that same have "i = item" by blast
    then show ?thesis by simp
  next
    case False
    then show ?thesis by simp
  qed
  then show ?thesis
    by (simp add: map_idI)
qed

lemma toggle_rollback:
  assumes "distinct (map id' (items s))" "item \<in> set (items s)"
  shows "items (fst (handleToggleComplete p item [] Rejected s)) = items s"
  using toggle_map_back [OF assms]
  by (simp add: handleToggleComplete_def handleToggleComplete_begin_def
      handleToggleComplete_catch_def Let_def)

lemma delete_rollback:
  "items (fst (handleDeleteItem p itemId during Rejected s)) = items s"
  by (simp add: handleDeleteItem_def handleDeleteItem_begin_def handleDeleteItem_catch_def Let_def)

lemma find_id_Some:
  "find (\<lambda>i. id' i = a) xs = Some x \<Longrightarrow> x \<in> set xs \<and> id' x = a"
  by (induction xs) (auto split: if_splits)

lemma desc_map_back:
  assumes "distinct (map id' xs)" "x \<in> set xs"
  shows "map (\<lambda>i. if id' i = id' x then i\<lparr>description := description x\<rparr> else i) xs = xs"
proof -
  have same: "i = x" if "i \<in> set xs" "id' i = id' x" for i
    using that assms by (meson distinct_map inj_onD)
  have "(if id' i = id' x then i\<lparr>description := description x\<rparr> else i) = i"
    if "i \<in> set xs" for i
  proof (cases "id' i = id' x")
    case True
    with that same have "i = x" by blast
    then show ?thesis by simp
  next
    case False
    then show ?thesis by simp
  qed
  then show ?thesis
    by (rule map_idI)
qed

lemma edit_rollback:
  assumes "distinct (map id' (items s))"
  shows "items (fst (handleUpdateItemDesc p itemId during Rejected s)) = items s"
proof (cases "find (\<lambda>i. id' i = itemId) (items s)")
  case None
  then show ?thesis
    by (simp add: handleUpdateItemDesc_def handleUpdateItemDesc_begin_def cancelEditing_def)
next
  case (Some x)
  from find_id_Some [OF Some] have x: "x \<in> set (items s)" "id' x = itemId" by simp_all
  from desc_map_back [OF assms x(1)] x(2) Some show ?thesis
    by (simp add: handleUpdateItemDesc_def handleUpdateItemDesc_begin_def
        handleUpdateItemDesc_catch_def cancelEditing_def Let_def)
qed

lemma failed_items:
  assumes "distinct (map id' (items s))" "applicable (items s) a"
  shows "items (failed p a s) = items s"
proof (cases a)
  case (Create d now n)
  with assms add_rollback [of now "s\<lparr>newItemDesc := d\<rparr>" p n] show ?thesis by simp
next
  case (Toggle item)
  with assms toggle_rollback show ?thesis by simp
next
  case (Edit item d)
  have "items (startEditing item s) = items s" by (simp add: startEditing_def)
  with Edit assms
    edit_rollback [of "(startEditing item s)\<lparr>editingItemDesc := d\<rparr>" p "id' item" "[]"]
  show ?thesis by simp
next
  case (Delete itemId)
  with delete_rollback show ?thesis by simp
qed

lemma failed_sequence:
  assumes "distinct (map id' (items s))" "\<forall>a \<in> set as. applicable (items s) a"
  shows "items (foldl (\<lambda>s' a. failed p a s') s as) = items s"
  using assms
proof (induction as arbitrary: s)
  case Nil
  then show ?case by simp
next
  case (Cons a as)
  have step: "items (failed p a s) = items s"
    using Cons.prems failed_items by simp
  with Cons.prems Cons.IH [of "failed p a s"] show ?case by simp
qed

text \<open>
  Why the ids are taken to be unique: with two items of one id, ticking the first and
  failing gives both the flag the first had.
\<close>

lemma toggle_rollback_duplicate_ids:
  "items (fst (handleToggleComplete (exampleProps websocket) (exampleItem ''1'' False) []
      Rejected (initialState\<lparr>items := [exampleItem ''1'' False, exampleItem ''1'' True]\<rparr>)))
   = [exampleItem ''1'' False, exampleItem ''1'' False]"
  by (simp add: initialState_def handleToggleComplete_def handleToggleComplete_begin_def
      handleToggleComplete_catch_def Let_def)

text \<open>
  C1, as stated, fails. One item is shown; its checkbox is ticked; while the update is
  pending the user submits a new item; then the update is rejected. The rollback
  restores the flag of the ticked item, and the provisional item of the second
  mutation is still in the collection, which is not the collection from before the
  tick.
\<close>

theorem rollback_interleaved_counterexample:
  "items draftExample = [exampleItem ''1'' False]
 \<and> items (fst (handleToggleComplete (exampleProps websocket) (exampleItem ''1'' False)
      [AddItem 1700 (Number 5)] Rejected draftExample))
    = [exampleItem ''1'' False,
       \<lparr>id' = ''temp-1700'', todoListId = ''5'', description = ''buy milk'',
        completed = False, listIdNum = Some (Number 5)\<rparr>]
 \<and> items (fst (handleToggleComplete (exampleProps websocket) (exampleItem ''1'' False)
      [AddItem 1700 (Number 5)] Rejected draftExample))
    \<noteq> items draftExample"
  by (simp only: draftExample_state)
    (simp add: handleToggleComplete_def handleToggleComplete_begin_def
      handleToggleComplete_catch_def handleAddItem_begin_def Let_def string_defs)

text \<open>
  C1, amended. Let the ids of the collection be unique. Any sequence of failed
  mutations, each run from the user's action to the end of its rollback with no other
  event in between, each on an item the screen shows and with a provisional id that is
  not in use, leaves the collection as it was before the sequence, so each rollback gives
  back the collection from before its own optimistic change. For delete and for
  edit-description this holds with any events in between as well: the rollback writes
  the collection of the render the handler ran in.
\<close>

theorem rollback_restores_items:
  assumes "distinct (map id' (items s))"
  shows "((\<forall>a \<in> set as. applicable (items s) a) \<longrightarrow>
            items (foldl (\<lambda>s' a. failed p a s') s as) = items s)
       \<and> items (fst (handleDeleteItem p itemId during Rejected s)) = items s
       \<and> items (fst (handleUpdateItemDesc p itemId during Rejected s)) = items s"
  using assms failed_sequence [of s as p] delete_rollback [of p itemId during s]
    edit_rollback [of s p itemId during]
  by blast

text \<open>
  C1 amended, on the one-item example: the four mutations fail one after the other (each
  had issued its request), and a deletion and an edit fail after another item was
  submitted meanwhile.
\<close>

theorem rollback_restores_items_witness:
  "distinct (map id' (items draftExample))
 \<and> list_all (applicable (items draftExample))
      [Toggle (exampleItem ''1'' False), Create ''buy eggs'' 1700 (Number 5),
       Edit (exampleItem ''1'' False) ''walk the cat'', Delete ''1'']
 \<and> items (foldl (\<lambda>s' a. failed (exampleProps websocket) a s') draftExample
      [Toggle (exampleItem ''1'' False), Create ''buy eggs'' 1700 (Number 5),
       Edit (exampleItem ''1'' False) ''walk the cat'', Delete ''1''])
    = [exampleItem ''1'' False]
 \<and> items (fst (handleDeleteItem (exampleProps websocket) ''1'' [AddItem 1700 (Number 5)]
      Rejected draftExample)) = [exampleItem ''1'' False]
 \<and> items (fst (handleUpdateItemDesc (exampleProps websocket) ''1'' [AddItem 1700 (Number 5)]
      Rejected (after (exampleProps websocket)
        [StartEditing (exampleItem ''1'' False), ChangeEditingItemDesc ''walk the cat'']
        draftExample))) = [exampleItem ''1'' False]
 \<and> snd (handleToggleComplete (exampleProps websocket) (exampleItem ''1'' False) [] Rejected
      draftExample) = [updateTodoListItem_completed ''5'' ''1'' True]
 \<and> snd (handleAddItem (exampleProps websocket) 1700 (Number 5) [] Rejected
      (after (exampleProps websocket) [ChangeNewItemDesc ''buy eggs''] draftExample))
    = [createTodoListItem ''5'' ''buy eggs'']
 \<and> snd (handleUpdateItemDesc (exampleProps websocket) ''1'' [] Rejected
      (after (exampleProps websocket)
        [StartEditing (exampleItem ''1'' False), ChangeEditingItemDesc ''walk the cat'']
        draftExample)) = [updateTodoListItem_description ''5'' ''1'' ''walk the cat'']
 \<and> snd (handleDeleteItem (exampleProps websocket) ''1'' [] Rejected draftExample)
    = [deleteTodoListItem ''5'' ''1'']"
proof -
  let ?p = "exampleProps websocket"
  let ?as = "[Toggle (exampleItem ''1'' False), Create ''buy eggs'' 1700 (Number 5),
       Edit (exampleItem ''1'' False) ''walk the cat'', Delete ''1'']"
  let ?editing = "after ?p
        [StartEditing (exampleItem ''1'' False), ChangeEditingItemDesc ''walk the cat'']
        draftExample"
  have shown: "items draftExample = [exampleItem ''1'' False]"
    by (simp only: draftExample_state) simp
  have shown': "items ?editing = [exampleItem ''1'' False]"
    by (simp only: draftExample_state) (simp add: startEditing_def)
  have h1: "distinct (map id' (items draftExample))"
    by (simp only: shown) simp
  have h1': "distinct (map id' (items ?editing))"
    by (simp only: shown') simp
  have h2: "list_all (applicable (items draftExample)) ?as"
    by (simp only: shown) (simp add: string_defs)
  then have h2': "\<forall>a \<in> set ?as. applicable (items draftExample) a"
    by (simp only: list_all_iff)
  note at_example = rollback_restores_items [OF h1, where p = ?p and as = ?as
      and itemId = "''1''" and during = "[AddItem 1700 (Number 5)]"]
  note at_editing = rollback_restores_items [OF h1', where p = ?p
      and itemId = "''1''" and during = "[AddItem 1700 (Number 5)]"]
  from at_example h2' have "items (foldl (\<lambda>s' a. failed ?p a s') draftExample ?as)
      = items draftExample"
    by blast
  then have c1: "items (foldl (\<lambda>s' a. failed ?p a s') draftExample ?as)
      = [exampleItem ''1'' False]"
    by (simp only: shown)
  from at_example have "items (fst (handleDeleteItem ?p ''1'' [AddItem 1700 (Number 5)]
      Rejected draftExample)) = items draftExample"
    by blast
  then have c2: "items (fst (handleDeleteItem ?p ''1'' [AddItem 1700 (Number 5)]
      Rejected draftExample)) = [exampleItem ''1'' False]"
    by (simp only: shown)
  from at_editing have "items (fst (handleUpdateItemDesc ?p ''1'' [AddItem 1700 (Number 5)]
      Rejected ?editing)) = items ?editing"
    by blast
  then have c3: "items (fst (handleUpdateItemDesc ?p ''1'' [AddItem 1700 (Number 5)]
      Rejected ?editing)) = [exampleItem ''1'' False]"
    by (simp only: shown')
  have r1: "snd (handleToggleComplete ?p (exampleItem ''1'' False) [] Rejected draftExample)
      = [updateTodoListItem_completed ''5'' ''1'' True]"
    by (simp only: draftExample_state)
      (simp add: handleToggleComplete_def handleToggleComplete_begin_def Let_def)
  have r2: "snd (handleAddItem ?p 1700 (Number 5) [] Rejected
      (after ?p [ChangeNewItemDesc ''buy eggs''] draftExample))
      = [createTodoListItem ''5'' ''buy eggs'']"
    by (simp only: draftExample_state)
      (simp add: handleAddItem_def handleAddItem_begin_def Let_def string_defs)
  have r3: "snd (handleUpdateItemDesc ?p ''1'' [] Rejected ?editing)
      = [updateTodoListItem_description ''5'' ''1'' ''walk the cat'']"
    by (simp only: draftExample_state)
      (simp add: handleUpdateItemDesc_def handleUpdateItemDesc_begin_def cancelEditing_def
        startEditing_def Let_def string_defs)
  have r4: "snd (handleDeleteItem ?p ''1'' [] Rejected draftExample)
      = [deleteTodoListItem ''5'' ''1'']"
    by (simp only: draftExample_state)
      (simp add: handleDeleteItem_def handleDeleteItem_begin_def Let_def)
  from h1 h2 c1 c2 c3 r1 r2 r3 r4 show ?thesis by blast
qed

section \<open>The fetch effect after the operation ends\<close>

text \<open>
  When an event ends the bulk operation, \<open>isCompletingAll\<close> changes and the fetch
  effect runs again: it puts \<open>loading\<close> on, clears the error status and fetches the
  collection once. The rejection of a trigger and the rejection of a polling fetch are
  such events, so the error status their \<open>catch\<close> block has set is the status of one
  render, and one fetch of the collection follows it.
\<close>

lemma effect_due_after_failure:
  assumes "isCompletingAll s"
  shows "effectDue s (handleCompleteAll_catch p s)"
    and "effectDue s (fst (fetchItems_catch p True s))"
  using assms
  by (simp_all add: effectDue_def handleCompleteAll_catch_def fetchItems_catch_def
      fetchItems_finally_def Let_def)

lemma effect_after_end:
  assumes "\<not> isCompletingAll s"
  shows "loading (fst (fire p FetchItemsEffect s))"
    and "error (fst (fire p FetchItemsEffect s)) = None"
    and "isCompletingAll (fst (fire p FetchItemsEffect s)) = isCompletingAll s"
    and "snd (fire p FetchItemsEffect s) = [getTodoListItems (listId p)]"
  using assms by (simp_all add: fetchItems_begin_def Let_def)

end
